theory Spec2Isabelle
  imports Complex_Main "HOL-Library.Log_Nat"
begin

section \<open>Python values and exceptions\<close>

text \<open>
  The library is dynamically typed: a field of the parsed XML document or of the
  discovery attributes may hold any Python value. The values that reach the code are
  modelled by one datatype; a dict is an association list whose first binding of a key
  is the dict's entry.
\<close>

datatype pyval =
    PyNone
  | PyBool bool
  | PyInt int
  | PyStr string
  | PyList "pyval list"
  | PyDict "(string \<times> pyval) list"

datatype exn =
    NotImplementedError string
  | KeyError string
  | TypeError
  | ValueError
  | AttributeError
  | ClientError
  | ExpatError
  | OSError

text \<open>\<^verbatim>\<open>obj[key]\<close> with a string key: only a dict can be subscripted by a string.\<close>

fun py_getitem :: "pyval \<Rightarrow> string \<Rightarrow> exn + pyval" where
  "py_getitem (PyDict kvs) k =
     (case map_of kvs k of None \<Rightarrow> Inl (KeyError k) | Some v \<Rightarrow> Inr v)"
| "py_getitem _ k = Inl TypeError"

text \<open>\<^verbatim>\<open>x != 0\<close>: \<^verbatim>\<open>False == 0\<close> and \<^verbatim>\<open>0 == 0\<close> hold, every other modelled value differs from 0.\<close>

fun py_ne_zero :: "pyval \<Rightarrow> bool" where
  "py_ne_zero (PyInt n) = (n \<noteq> 0)"
| "py_ne_zero (PyBool b) = b"
| "py_ne_zero _ = True"

subsection \<open>The built-in \<^verbatim>\<open>int()\<close>\<close>

definition is_digit :: "char \<Rightarrow> bool" where
  "is_digit c = (c \<in> set ''0123456789'')"

definition digit_value :: "char \<Rightarrow> int" where
  "digit_value c = int (of_char c) - 48"

definition py_isspace :: "char \<Rightarrow> bool" where
  "py_isspace c = (of_char c \<in> set [9, 10, 11, 12, 13, 32 :: nat])"

text \<open>
  Decimal digits with single underscores between digits; the flag says that a digit
  must come next (at the start and after an underscore).
\<close>

fun scan_digits :: "bool \<Rightarrow> int \<Rightarrow> string \<Rightarrow> int option" where
  "scan_digits need acc [] = (if need then None else Some acc)"
| "scan_digits need acc (c # cs) =
     (if is_digit c then scan_digits False (10 * acc + digit_value c) cs
      else if c = CHR ''_'' \<and> \<not> need then scan_digits True acc cs
      else None)"

definition py_strip :: "string \<Rightarrow> string" where
  "py_strip s = rev (dropWhile py_isspace (rev (dropWhile py_isspace s)))"

text \<open>
  \<^verbatim>\<open>int(s)\<close> for a string of ASCII text: surrounding white space, an optional sign,
  decimal digits. The interpreter refuses a string with more digit characters than
  \<^verbatim>\<open>sys.int_info.default_max_str_digits\<close>; the sign, the underscores and the white space
  are not counted, leading zeros are. The library never changes that default.
\<close>

definition MAX_STR_DIGITS :: nat where "MAX_STR_DIGITS = 4300"

definition split_sign :: "string \<Rightarrow> bool \<times> string" where
  "split_sign t =
     (case t of
        [] \<Rightarrow> (False, [])
      | c # cs \<Rightarrow>
          if c = CHR ''+'' then (False, cs)
          else if c = CHR ''-'' then (True, cs)
          else (False, t))"

definition py_int_of_str :: "string \<Rightarrow> exn + int" where
  "py_int_of_str s =
     (let (neg, body) = split_sign (py_strip s)
      in if length (filter is_digit body) > MAX_STR_DIGITS then Inl ValueError
         else (case scan_digits True 0 body of
                 None \<Rightarrow> Inl ValueError
               | Some n \<Rightarrow> Inr (if neg then - n else n)))"

fun py_int :: "pyval \<Rightarrow> exn + int" where
  "py_int (PyInt n) = Inr n"
| "py_int (PyBool b) = Inr (if b then 1 else 0)"
| "py_int (PyStr s) = py_int_of_str s"
| "py_int _ = Inl TypeError"

subsection \<open>Addition of floats\<close>

text \<open>
  \<^verbatim>\<open>time.monotonic()\<close> returns a double and \<^verbatim>\<open>+ 10\<close> is the addition of doubles: the
  exact sum rounded to the nearest double, a tie going to the even significand. A double
  is kept as the real number it stands for. A normal double with exponent \<open>e\<close> is a
  multiple of \<open>2 ^ (e - 52)\<close>; below \<open>2 ^ - 1022\<close> the spacing stays \<open>2 ^ - 1074\<close>. A sum
  beyond the largest double is infinite in Python; the value kept here is then at least
  \<open>2 ^ 1024\<close>, above every double, so it compares with a clock reading as infinity does.
\<close>

definition pow2 :: "int \<Rightarrow> real" where
  "pow2 e = (if 0 \<le> e then 2 ^ nat e else 1 / 2 ^ nat (- e))"

text \<open>The integer part of the binary logarithm of a positive number.\<close>

definition floor_log2 :: "real \<Rightarrow> int" where
  "floor_log2 x =
     (if 1 \<le> x then bitlen \<lfloor>x\<rfloor> - 1
      else (let k = bitlen \<lfloor>1 / x\<rfloor> - 1
            in if 1 / x = pow2 k then - k else - k - 1))"

definition round_half_even :: "real \<Rightarrow> int" where
  "round_half_even x =
     (let f = \<lfloor>x\<rfloor>; d = x - of_int f
      in if d < 1 / 2 then f
         else if 1 / 2 < d then f + 1
         else if even f then f else f + 1)"

text \<open>The exponent of a number other than zero, no lower than that of the subnormals.\<close>

definition dexp :: "real \<Rightarrow> int" where
  "dexp x = max (floor_log2 \<bar>x\<bar>) (- 1022)"

definition round_to_double :: "real \<Rightarrow> real" where
  "round_to_double x =
     (if x = 0 then 0
      else (let q = pow2 (dexp x - 52)
            in sgn x * of_int (round_half_even (\<bar>x\<bar> / q)) * q))"

definition py_float_add :: "real \<Rightarrow> real \<Rightarrow> real" where
  "py_float_add x y = round_to_double (x + y)"

subsection \<open>The temperature patterns\<close>

text \<open>
  \<^verbatim>\<open>re.compile("([0-9]+)X" + u).match(s)\<close> anchors at the start of \<open>s\<close> and not at its
  end. The greedy digit run is the longest one; a shorter run is followed by a digit,
  never by \<open>X\<close>, so backtracking finds nothing more. The result is group 1 of the match.
\<close>

definition temp_regex_match :: "string \<Rightarrow> string \<Rightarrow> string option" where
  "temp_regex_match u s =
     (let ds = takeWhile is_digit s; rest = dropWhile is_digit s
      in if ds \<noteq> [] \<and> take (length (CHR ''X'' # u)) rest = CHR ''X'' # u
         then Some ds else None)"

definition TEMP_REGEX_F :: "string \<Rightarrow> string option" where
  "TEMP_REGEX_F = temp_regex_match ''F''"

definition TEMP_REGEX_C :: "string \<Rightarrow> string option" where
  "TEMP_REGEX_C = temp_regex_match ''C''"

text \<open>\<^verbatim>\<open>pattern.match(x)\<close> raises TypeError unless \<open>x\<close> is a string.\<close>

fun re_match :: "(string \<Rightarrow> string option) \<Rightarrow> pyval \<Rightarrow> exn + string option" where
  "re_match p (PyStr s) = Inr (p s)"
| "re_match p _ = Inl TypeError"

section \<open>Constants\<close>

definition DEFAULT_REQUEST_TIMEOUT :: int where "DEFAULT_REQUEST_TIMEOUT = 10"
definition STATUS_ENDPOINT :: string where "STATUS_ENDPOINT = ''/status.xml''"
definition SET_ENDPOINT :: string where "SET_ENDPOINT = ''/leds.cgi''"
definition STEAM_ON_LED :: int where "STEAM_ON_LED = 6"
definition STEAM_OFF_LED :: int where "STEAM_OFF_LED = 7"
definition NEVER_TIME :: real where "NEVER_TIME = - 1200"

section \<open>The collaborators\<close>

datatype ClientSession = ClientSession nat

record http_request =
  req_method :: string
  req_url :: string
  req_timeout :: int
  req_params :: "(string \<times> int) list option"

record Device30303 =
  additional_data :: pyval

text \<open>
  What the library does not own is a parameter: the two model constants of the
  discovery package, the HTTP session (a request followed by reading the body's text),
  the XML parser and the discovery scan (the devices found within the timeout at the
  address).
\<close>

record env =
  MODEL_550 :: string
  MODEL_450 :: string
  session_request :: "ClientSession \<Rightarrow> http_request \<Rightarrow> exn + string"
  xmltodict_parse :: "string \<Rightarrow> exn + pyval"
  async_scan :: "int \<Rightarrow> string \<Rightarrow> exn + Device30303 list"

text \<open>What a call did to the outside world, in order.\<close>

datatype effect = HttpGet ClientSession http_request | Scan int string

section \<open>SteamistStatus\<close>

record SteamistStatus =
  temp :: pyval
  temp_units :: pyval
  minutes_remain :: pyval
  seconds_remain :: pyval
  active :: bool

definition create_from_device_30303 :: "Device30303 \<Rightarrow> exn + SteamistStatus" where
  "create_from_device_30303 steamist =
     (case py_getitem (additional_data steamist) ''temperature'' of Inl e \<Rightarrow> Inl e | Inr t \<Rightarrow>
     (case py_getitem (additional_data steamist) ''temp_unit'' of Inl e \<Rightarrow> Inl e | Inr u \<Rightarrow>
     (case py_getitem (additional_data steamist) ''minutesleft'' of Inl e \<Rightarrow> Inl e | Inr m \<Rightarrow>
     (case py_getitem (additional_data steamist) ''secondsleft'' of Inl e \<Rightarrow> Inl e | Inr s \<Rightarrow>
     (case py_getitem (additional_data steamist) ''profile'' of Inl e \<Rightarrow> Inl e | Inr p \<Rightarrow>
        Inr \<lparr>temp = t, temp_units = u, minutes_remain = m, seconds_remain = s,
             active = py_ne_zero p\<rparr>)))))"

section \<open>The client classes\<close>

datatype cls = Steamist | SteamistModel550 | SteamistModel450

text \<open>
  An instance: its class, the fields set by \<^verbatim>\<open>Steamist.__init__\<close> and the session that
  only \<^verbatim>\<open>SteamistModel450.__init__\<close> sets.
\<close>

record steamist =
  klass :: cls
  host :: string
  timeout :: int
  transition_complete_time :: real
  transiton_state :: bool
  auth_invalid :: int
  websession :: "ClientSession option"

definition Steamist_init :: "cls \<Rightarrow> string \<Rightarrow> int \<Rightarrow> steamist" where
  "Steamist_init c h t =
     \<lparr>klass = c, host = h, timeout = t, transition_complete_time = NEVER_TIME,
      transiton_state = False, auth_invalid = 0, websession = None\<rparr>"

definition SteamistModel450_init :: "string \<Rightarrow> ClientSession \<Rightarrow> int \<Rightarrow> steamist" where
  "SteamistModel450_init h ws t = (Steamist_init SteamistModel450 h t)\<lparr>websession := Some ws\<rparr>"

text \<open>The argument \<open>now\<close> is what \<^verbatim>\<open>time.monotonic()\<close> returns when the method reads it.\<close>

definition async_set_transition :: "real \<Rightarrow> bool \<Rightarrow> steamist \<Rightarrow> steamist" where
  "async_set_transition now state self =
     self\<lparr>transiton_state := state, transition_complete_time := py_float_add now 10\<rparr>"

text \<open>
  A method that may change the instance returns what it did to the outside world, its
  result or the exception raised, and the instance afterwards.
\<close>

type_synonym 'a outcome = "effect list \<times> (exn + 'a) \<times> steamist"

definition Steamist_async_turn_on_steam :: "real \<Rightarrow> steamist \<Rightarrow> unit outcome" where
  "Steamist_async_turn_on_steam now self = ([], Inr (), async_set_transition now True self)"

definition Steamist_async_turn_off_steam :: "real \<Rightarrow> steamist \<Rightarrow> unit outcome" where
  "Steamist_async_turn_off_steam now self = ([], Inr (), async_set_transition now False self)"

definition Steamist_async_get_status :: "steamist \<Rightarrow> effect list \<times> (exn + SteamistStatus option)" where
  "Steamist_async_get_status self = ([], Inl (NotImplementedError ''Sub class should implement''))"

definition Steamist_model :: "exn + string" where
  "Steamist_model = Inl (NotImplementedError ''Must be overriden by subclass'')"

subsection \<open>SteamistModel550\<close>

definition SteamistModel550_async_get_status ::
  "env \<Rightarrow> steamist \<Rightarrow> effect list \<times> (exn + SteamistStatus option)" where
  "SteamistModel550_async_get_status E self =
     ([Scan 5 (host self)],
      (case async_scan E 5 (host self) of
         Inl e \<Rightarrow> Inl e
       | Inr found_devices \<Rightarrow>
           if length found_devices > 0
           then (case create_from_device_30303 (hd found_devices) of
                   Inl e \<Rightarrow> Inl e | Inr st \<Rightarrow> Inr (Some st))
           else Inr None))"

definition SteamistModel550_model :: "env \<Rightarrow> string" where
  "SteamistModel550_model E = MODEL_550 E"

subsection \<open>SteamistModel450\<close>

definition steamist_get ::
  "env \<Rightarrow> steamist \<Rightarrow> string \<Rightarrow> (string \<times> int) list option \<Rightarrow> effect list \<times> (exn + string)" where
  "steamist_get E self endpoint params =
     (case websession self of
        None \<Rightarrow> ([], Inl AttributeError)
      | Some ws \<Rightarrow>
          (let req = \<lparr>req_method = ''GET'', req_url = ''http://'' @ host self @ endpoint,
                      req_timeout = timeout self, req_params = params\<rparr>
           in ([HttpGet ws req], session_request E ws req)))"

text \<open>
  The temperature and its unit, from the two match results: \<^verbatim>\<open>units = "F"\<close> and
  \<^verbatim>\<open>temp = None\<close> unless one of the patterns matched, the Fahrenheit one first.
\<close>

definition temp_of_groups :: "string option \<Rightarrow> string option \<Rightarrow> exn + pyval \<times> string" where
  "temp_of_groups groups_f groups_c =
     (case groups_f of
        Some g \<Rightarrow> (case py_int (PyStr g) of Inl e \<Rightarrow> Inl e | Inr n \<Rightarrow> Inr (PyInt n, ''F''))
      | None \<Rightarrow>
         (case groups_c of
            Some g \<Rightarrow> (case py_int (PyStr g) of Inl e \<Rightarrow> Inl e | Inr n \<Rightarrow> Inr (PyInt n, ''C''))
          | None \<Rightarrow> Inr (PyNone, ''F'')))"

definition status_of_response :: "real \<Rightarrow> steamist \<Rightarrow> pyval \<Rightarrow> exn + SteamistStatus" where
  "status_of_response now self response =
     (case py_getitem response ''temp0'' of Inl e \<Rightarrow> Inl e | Inr t0 \<Rightarrow>
     (case re_match TEMP_REGEX_F t0 of Inl e \<Rightarrow> Inl e | Inr groups_f \<Rightarrow>
     (case re_match TEMP_REGEX_C t0 of Inl e \<Rightarrow> Inl e | Inr groups_c \<Rightarrow>
     (case temp_of_groups groups_f groups_c of Inl e \<Rightarrow> Inl e | Inr tu \<Rightarrow>
     (case py_getitem response ''time0'' of Inl e \<Rightarrow> Inl e | Inr t \<Rightarrow>
     (case py_int t of Inl e \<Rightarrow> Inl e | Inr minutes \<Rightarrow>
        Inr \<lparr>temp = fst tu, temp_units = PyStr (snd tu), minutes_remain = PyInt minutes,
             seconds_remain = PyInt 0,
             active = (if transition_complete_time self > now then transiton_state self
                       else minutes > 0)\<rparr>))))))"

definition SteamistModel450_async_get_status ::
  "env \<Rightarrow> real \<Rightarrow> steamist \<Rightarrow> effect list \<times> (exn + SteamistStatus option)" where
  "SteamistModel450_async_get_status E now self =
     (let (tr, r) = steamist_get E self STATUS_ENDPOINT None
      in (tr,
          (case r of Inl e \<Rightarrow> Inl e | Inr body \<Rightarrow>
           (case xmltodict_parse E body of Inl e \<Rightarrow> Inl e | Inr data \<Rightarrow>
            (case py_getitem data ''response'' of Inl e \<Rightarrow> Inl e | Inr response \<Rightarrow>
             (case status_of_response now self response of
                Inl e \<Rightarrow> Inl e | Inr st \<Rightarrow> Inr (Some st)))))))"

definition async_set_led :: "env \<Rightarrow> steamist \<Rightarrow> int \<Rightarrow> effect list \<times> (exn + unit)" where
  "async_set_led E self led =
     (let (tr, r) = steamist_get E self SET_ENDPOINT (Some [(''led'', led)])
      in (tr, (case r of Inl e \<Rightarrow> Inl e | Inr body \<Rightarrow> Inr ())))"

definition SteamistModel450_async_turn_on_steam :: "env \<Rightarrow> real \<Rightarrow> steamist \<Rightarrow> unit outcome" where
  "SteamistModel450_async_turn_on_steam E now self =
     (let (tr, r) = async_set_led E self STEAM_ON_LED
      in (case r of
            Inl e \<Rightarrow> (tr, Inl e, self)
          | Inr u \<Rightarrow> (tr, Inr (), async_set_transition now True self)))"

definition SteamistModel450_async_turn_off_steam :: "env \<Rightarrow> real \<Rightarrow> steamist \<Rightarrow> unit outcome" where
  "SteamistModel450_async_turn_off_steam E now self =
     (let (tr, r) = async_set_led E self STEAM_OFF_LED
      in (case r of
            Inl e \<Rightarrow> (tr, Inl e, self)
          | Inr u \<Rightarrow> (tr, Inr (), async_set_transition now False self)))"

definition SteamistModel450_model :: "env \<Rightarrow> string" where
  "SteamistModel450_model E = MODEL_450 E"

subsection \<open>Method dispatch on the class of the instance\<close>

definition async_get_status ::
  "env \<Rightarrow> real \<Rightarrow> steamist \<Rightarrow> effect list \<times> (exn + SteamistStatus option)" where
  "async_get_status E now self =
     (case klass self of
        Steamist \<Rightarrow> Steamist_async_get_status self
      | SteamistModel550 \<Rightarrow> SteamistModel550_async_get_status E self
      | SteamistModel450 \<Rightarrow> SteamistModel450_async_get_status E now self)"

definition async_turn_on_steam :: "env \<Rightarrow> real \<Rightarrow> steamist \<Rightarrow> unit outcome" where
  "async_turn_on_steam E now self =
     (case klass self of
        SteamistModel450 \<Rightarrow> SteamistModel450_async_turn_on_steam E now self
      | _ \<Rightarrow> Steamist_async_turn_on_steam now self)"

definition async_turn_off_steam :: "env \<Rightarrow> real \<Rightarrow> steamist \<Rightarrow> unit outcome" where
  "async_turn_off_steam E now self =
     (case klass self of
        SteamistModel450 \<Rightarrow> SteamistModel450_async_turn_off_steam E now self
      | _ \<Rightarrow> Steamist_async_turn_off_steam now self)"

definition model :: "env \<Rightarrow> cls \<Rightarrow> exn + string" where
  "model E c =
     (case c of
        Steamist \<Rightarrow> Steamist_model
      | SteamistModel550 \<Rightarrow> Inr (SteamistModel550_model E)
      | SteamistModel450 \<Rightarrow> Inr (SteamistModel450_model E))"

subsection \<open>The factory\<close>

definition create_steamist_from ::
  "env \<Rightarrow> string \<Rightarrow> string \<Rightarrow> (unit \<Rightarrow> ClientSession) \<Rightarrow> steamist" where
  "create_steamist_from E h m websession_factory =
     (if m = SteamistModel550_model E
      then Steamist_init SteamistModel550 h DEFAULT_REQUEST_TIMEOUT
      else SteamistModel450_init h (websession_factory ()) DEFAULT_REQUEST_TIMEOUT)"

section \<open>Sequences of commands\<close>

datatype command = TurnOn | TurnOff

definition exec_command :: "env \<Rightarrow> real \<Rightarrow> command \<Rightarrow> steamist \<Rightarrow> unit outcome" where
  "exec_command E now c self =
     (case c of
        TurnOn \<Rightarrow> async_turn_on_steam E now self
      | TurnOff \<Rightarrow> async_turn_off_steam E now self)"

text \<open>
  A caller issues commands one after the other on the same instance, each with the
  network as it is then and the clock as the command reads it. A command that raises
  leaves the instance to the next command as it is.
\<close>

fun run_commands :: "(env \<times> real \<times> command) list \<Rightarrow> steamist \<Rightarrow> steamist" where
  "run_commands [] self = self"
| "run_commands ((E, now, c) # cs) self =
     run_commands cs (snd (snd (exec_command E now c self)))"

section \<open>What the specification calls a match\<close>

text \<open>
  The string \<open>s\<close> starts with one or more digits \<open>ds\<close>, then \<open>X\<close>, then the unit
  letter; anything may follow.
\<close>

definition starts_with_temp :: "string \<Rightarrow> string \<Rightarrow> string \<Rightarrow> bool" where
  "starts_with_temp u s ds =
     (ds \<noteq> [] \<and> list_all is_digit ds \<and>
      take (length (ds @ CHR ''X'' # u)) s = ds @ CHR ''X'' # u)"

text \<open>The digits read as a decimal numeral.\<close>

definition decimal_value :: "string \<Rightarrow> int" where
  "decimal_value ds = foldl (\<lambda>a c. 10 * a + digit_value c) 0 ds"

text \<open>The reply to the status request, parsed, as \<^verbatim>\<open>async_get_status\<close> obtains it.\<close>

definition polled_response :: "env \<Rightarrow> steamist \<Rightarrow> exn + pyval" where
  "polled_response E self =
     (case snd (steamist_get E self STATUS_ENDPOINT None) of Inl e \<Rightarrow> Inl e | Inr body \<Rightarrow>
     (case xmltodict_parse E body of Inl e \<Rightarrow> Inl e | Inr data \<Rightarrow>
        py_getitem data ''response''))"

text \<open>The request that \<^verbatim>\<open>async_set_led\<close> sends for a LED id.\<close>

definition led_request :: "steamist \<Rightarrow> int \<Rightarrow> http_request" where
  "led_request self led =
     \<lparr>req_method = ''GET'', req_url = ''http://'' @ host self @ ''/leds.cgi'',
      req_timeout = timeout self, req_params = Some [(''led'', led)]\<rparr>"

section \<open>A device on the bench\<close>

text \<open>
  A controller at 192.168.1.20 that answers the status request with the given
  \<open>temp0\<close> and \<open>time0\<close> and accepts every other request; no device answers a scan.
\<close>

definition bench_body :: "string \<Rightarrow> string \<Rightarrow> string" where
  "bench_body t0 t =
     ''<response><temp0>'' @ t0 @ ''</temp0><time0>'' @ t @ ''</time0></response>''"

definition bench_env :: "string \<Rightarrow> string \<Rightarrow> env" where
  "bench_env t0 t =
     \<lparr>MODEL_550 = ''550'', MODEL_450 = ''450'',
      session_request = (\<lambda>ws req.
         if req_url req = ''http://192.168.1.20/status.xml'' then Inr (bench_body t0 t)
         else Inr ''ok''),
      xmltodict_parse = (\<lambda>body.
         if body = bench_body t0 t
         then Inr (PyDict [(''response'', PyDict [(''temp0'', PyStr t0), (''time0'', PyStr t)])])
         else Inl ExpatError),
      async_scan = (\<lambda>tmo addr. Inr [])\<rparr>"

text \<open>The same network with the controller unplugged: every request fails.\<close>

definition unplugged_env :: env where
  "unplugged_env =
     (bench_env ''105XF'' ''0'')\<lparr>session_request := (\<lambda>ws req. Inl ClientError)\<rparr>"

definition bench_450 :: steamist where
  "bench_450 = SteamistModel450_init ''192.168.1.20'' (ClientSession 0) DEFAULT_REQUEST_TIMEOUT"

section \<open>Rounding to a double\<close>

lemma pow2_powi: "pow2 e = 2 powi e"
proof (cases "0 \<le> e")
  case True
  then show ?thesis
    by (simp add: pow2_def power_int_def)
next
  case False
  then show ?thesis
    by (simp add: pow2_def power_int_def power_one_over inverse_eq_divide)
qed

lemma pow2_pos: "0 < pow2 e"
  by (simp add: pow2_def)

lemma pow2_add: "pow2 (a + b) = pow2 a * pow2 b"
  by (simp add: pow2_powi power_int_add)

lemma pow2_mono: "a \<le> b \<Longrightarrow> pow2 a \<le> pow2 b"
  by (simp add: pow2_powi power_int_increasing)

lemma pow2_nat: "0 \<le> e \<Longrightarrow> pow2 e = of_int (2 ^ nat e)"
  by (simp add: pow2_def)

lemma pow2_neg: "pow2 (- e) = 1 / pow2 e"
  by (simp add: pow2_powi power_int_minus divide_inverse)

lemma pow2_one: "pow2 1 = 2"
  by (simp add: pow2_def)

lemma pow2_Suc: "pow2 (a + 1) = 2 * pow2 a"
  using pow2_add [of a 1] by (simp add: pow2_one)

lemma pow2_strict: "pow2 a < pow2 (a + 1)"
  using pow2_pos [of a] by (simp add: pow2_Suc)

lemma floor_bitlen_bounds:
  fixes y :: real
  assumes "1 \<le> y"
  shows "pow2 (bitlen \<lfloor>y\<rfloor> - 1) \<le> y \<and> y < pow2 (bitlen \<lfloor>y\<rfloor>)"
proof -
  let ?n = "\<lfloor>y\<rfloor>"
  have n: "0 < ?n"
    using assms by simp
  from bitlen_bounds [OF n] have lo: "2 ^ nat (bitlen ?n - 1) \<le> ?n" and hi: "?n < 2 ^ nat (bitlen ?n)"
    by simp_all
  have b1: "1 \<le> bitlen ?n"
    using n by (simp add: bitlen_alt_def)
  have "pow2 (bitlen ?n - 1) = of_int (2 ^ nat (bitlen ?n - 1))"
    using b1 by (simp add: pow2_nat)
  also have "\<dots> \<le> of_int ?n"
    using lo by (simp only: of_int_le_iff)
  also have "\<dots> \<le> y"
    by simp
  finally have 1: "pow2 (bitlen ?n - 1) \<le> y" .
  have "?n + 1 \<le> 2 ^ nat (bitlen ?n)"
    using hi by simp
  then have "(of_int (?n + 1) :: real) \<le> of_int (2 ^ nat (bitlen ?n))"
    by (simp only: of_int_le_iff)
  moreover have "y < of_int (?n + 1)"
    by simp
  ultimately have "y < of_int (2 ^ nat (bitlen ?n))"
    by linarith
  then have 2: "y < pow2 (bitlen ?n)"
    using b1 by (simp add: pow2_nat)
  from 1 2 show ?thesis ..
qed

lemma floor_log2_bounds:
  assumes "0 < x"
  shows "pow2 (floor_log2 x) \<le> x \<and> x < pow2 (floor_log2 x + 1)"
proof (cases "1 \<le> x")
  case True
  then show ?thesis
    using floor_bitlen_bounds [OF True] by (simp add: floor_log2_def)
next
  case False
  define y where "y = 1 / x"
  define k where "k = bitlen \<lfloor>y\<rfloor> - 1"
  have y1: "1 \<le> y"
    using assms False by (simp add: y_def)
  have ypos: "0 < y"
    using y1 by simp
  from floor_bitlen_bounds [OF y1] have lo: "pow2 k \<le> y" and hi: "y < pow2 (k + 1)"
    by (simp_all add: k_def)
  have x: "x = 1 / y"
    using assms by (simp add: y_def)
  have fl: "floor_log2 x = (if y = pow2 k then - k else - k - 1)"
    using False by (simp add: floor_log2_def Let_def y_def k_def)
  show ?thesis
  proof (cases "y = pow2 k")
    case True
    have xe: "x = pow2 (- k)"
      unfolding x True by (rule pow2_neg [symmetric])
    have fl': "floor_log2 x = - k"
      using fl True by simp
    have a: "pow2 (- k) \<le> x"
      using xe by simp
    have b: "x < pow2 (- k + 1)"
      unfolding xe by (rule pow2_strict)
    show ?thesis
      unfolding fl' using a b ..
  next
    case neq: False
    have lo': "pow2 k < y"
      using lo neq by simp
    have "1 / y < 1 / pow2 k"
      using lo' pow2_pos [of k] by (simp add: frac_less2)
    then have 2: "x < pow2 (- k)"
      by (simp only: x pow2_neg)
    have "1 / pow2 (k + 1) < 1 / y"
      using hi ypos by (simp add: frac_less2)
    then have 1: "pow2 (- (k + 1)) \<le> x"
      by (simp only: x pow2_neg less_imp_le)
    have e1: "- k - 1 = - (k + 1)" and e2: "- k - 1 + 1 = - k"
      by simp_all
    from 1 2 show ?thesis
      by (simp only: fl neq if_False e1 [symmetric] e2)
  qed
qed

lemma floor_log2_mono:
  assumes "0 < x" and "x \<le> y"
  shows "floor_log2 x \<le> floor_log2 y"
proof (rule ccontr)
  assume "\<not> floor_log2 x \<le> floor_log2 y"
  then have "floor_log2 y + 1 \<le> floor_log2 x"
    by simp
  then have "pow2 (floor_log2 y + 1) \<le> pow2 (floor_log2 x)"
    by (rule pow2_mono)
  moreover have "pow2 (floor_log2 x) \<le> x"
    using floor_log2_bounds [OF assms(1)] by simp
  moreover have "y < pow2 (floor_log2 y + 1)"
    using floor_log2_bounds [of y] assms by simp
  ultimately show False
    using assms(2) by linarith
qed

lemma round_half_even_le:
  assumes "y \<le> of_int N"
  shows "round_half_even y \<le> N"
proof -
  have f: "\<lfloor>y\<rfloor> \<le> N"
    using assms by (simp add: floor_le_iff)
  show ?thesis
  proof (cases "y = of_int \<lfloor>y\<rfloor>")
    case True
    then show ?thesis
      using f by (simp add: round_half_even_def Let_def)
  next
    case False
    then have "of_int \<lfloor>y\<rfloor> < y"
      using of_int_floor_le [of y] by (auto simp: less_le)
    then have "of_int \<lfloor>y\<rfloor> < (of_int N :: real)"
      using assms by linarith
    then have "\<lfloor>y\<rfloor> + 1 \<le> N"
      by simp
    then show ?thesis
      by (simp add: round_half_even_def Let_def)
  qed
qed

lemma round_half_even_ge:
  assumes "of_int N \<le> y"
  shows "N \<le> round_half_even y"
proof -
  have "N \<le> \<lfloor>y\<rfloor>"
    using assms by (simp add: le_floor_iff)
  then show ?thesis
    by (simp add: round_half_even_def Let_def)
qed


subsection \<open>Doubles and the grid of a rounding\<close>

lemma round_to_double_pos:
  assumes "0 < x"
  shows "round_to_double x = of_int (round_half_even (x / pow2 (dexp x - 52))) * pow2 (dexp x - 52)"
  using assms by (simp add: round_to_double_def Let_def)

lemma dexp_minus: "dexp (- x) = dexp x"
  by (simp add: dexp_def)

lemma round_to_double_minus: "round_to_double (- x) = - round_to_double x"
  by (simp add: round_to_double_def Let_def sgn_minus dexp_minus)

lemma round_half_even_nonneg:
  assumes "0 \<le> y"
  shows "0 \<le> round_half_even y"
  using round_half_even_ge [of 0 y] assms by simp

lemma round_to_double_nonneg:
  assumes "0 \<le> x"
  shows "0 \<le> round_to_double x"
proof (cases "x = 0")
  case True
  then show ?thesis
    by (simp add: round_to_double_def)
next
  case False
  then have x: "0 < x"
    using assms by simp
  have "0 \<le> x / pow2 (dexp x - 52)"
    using x pow2_pos [of "dexp x - 52"] by simp
  then have "0 \<le> round_half_even (x / pow2 (dexp x - 52))"
    by (rule round_half_even_nonneg)
  then show ?thesis
    using pow2_pos [of "dexp x - 52"] by (simp add: round_to_double_pos [OF x])
qed

lemma dexp_mono:
  assumes "0 < x" and "x \<le> y"
  shows "dexp x \<le> dexp y"
  using floor_log2_mono [of x y] assms by (simp add: dexp_def)

lemma pow2_diff_int:
  assumes "a \<le> b"
  shows "pow2 b = of_int (2 ^ nat (b - a)) * pow2 a"
proof -
  have "pow2 b = pow2 ((b - a) + a)"
    by simp
  also have "\<dots> = pow2 (b - a) * pow2 a"
    by (rule pow2_add)
  also have "pow2 (b - a) = of_int (2 ^ nat (b - a))"
    using assms by (simp add: pow2_nat)
  finally show ?thesis .
qed

lemma double_on_grid:
  assumes "0 < t" and "round_to_double t = t" and "e \<le> dexp t"
  shows "\<exists>N::int. t = of_int N * pow2 (e - 52)"
proof -
  let ?n = "round_half_even (t / pow2 (dexp t - 52))"
  have t: "t = of_int ?n * pow2 (dexp t - 52)"
    using round_to_double_pos [OF assms(1)] assms(2) by simp
  have "pow2 (dexp t - 52) = of_int (2 ^ nat ((dexp t - 52) - (e - 52))) * pow2 (e - 52)"
    using assms(3) by (intro pow2_diff_int) simp
  then have "t = of_int (?n * 2 ^ nat ((dexp t - 52) - (e - 52))) * pow2 (e - 52)"
    using t by (metis mult.assoc of_int_mult)
  then show ?thesis ..
qed

lemma round_to_double_le_double:
  assumes "0 < x" and "x \<le> t" and "round_to_double t = t"
  shows "round_to_double x \<le> t"
proof -
  let ?q = "pow2 (dexp x - 52)"
  have tpos: "0 < t"
    using assms by simp
  have q: "0 < ?q"
    by (rule pow2_pos)
  from double_on_grid [OF tpos assms(3) dexp_mono [OF assms(1,2)]]
  obtain N :: int where N: "t = of_int N * ?q" ..
  have "x / ?q \<le> of_int N"
    using assms(2) q by (simp add: N pos_divide_le_eq)
  then have "round_half_even (x / ?q) \<le> N"
    by (rule round_half_even_le)
  then have "of_int (round_half_even (x / ?q)) * ?q \<le> of_int N * ?q"
    using q by simp
  then show ?thesis
    by (simp add: round_to_double_pos [OF assms(1)] N)
qed

lemma double_le_round_to_double:
  assumes "0 < t" and "t \<le> x" and "round_to_double t = t"
  shows "t \<le> round_to_double x"
proof -
  let ?q = "pow2 (dexp x - 52)"
  have xpos: "0 < x"
    using assms by simp
  have q: "0 < ?q"
    by (rule pow2_pos)
  have le: "dexp t \<le> dexp x"
    by (rule dexp_mono [OF assms(1,2)])
  show ?thesis
  proof (cases "dexp x \<le> dexp t")
    case True
    from double_on_grid [OF assms(1) assms(3) True]
    obtain N :: int where N: "t = of_int N * ?q" ..
    have "of_int N \<le> x / ?q"
      using assms(2) q by (simp add: N pos_le_divide_eq)
    then have "N \<le> round_half_even (x / ?q)"
      by (rule round_half_even_ge)
    then have "of_int N * ?q \<le> of_int (round_half_even (x / ?q)) * ?q"
      using q by simp
    then show ?thesis
      by (simp add: round_to_double_pos [OF xpos] N)
  next
    case False
    then have lt: "dexp t + 1 \<le> dexp x"
      by simp
    have "- 1022 \<le> dexp t"
      by (simp add: dexp_def)
    then have fx: "floor_log2 x = dexp x"
      using lt xpos by (simp add: dexp_def max_def split: if_splits)
    have "floor_log2 t \<le> dexp t"
      using assms(1) by (simp add: dexp_def)
    then have "pow2 (floor_log2 t + 1) \<le> pow2 (dexp x)"
      using lt by (intro pow2_mono) simp
    moreover have "t < pow2 (floor_log2 t + 1)"
      using floor_log2_bounds [OF assms(1)] by simp
    ultimately have tl: "t < pow2 (dexp x)"
      by simp
    have px: "pow2 (dexp x) \<le> x"
      using floor_log2_bounds [OF xpos] fx by simp
    have grid: "pow2 (dexp x) = of_int (2 ^ nat (dexp x - (dexp x - 52))) * ?q"
      by (intro pow2_diff_int) simp
    define M :: int where "M = 2 ^ nat (dexp x - (dexp x - 52))"
    have gridM: "pow2 (dexp x) = of_int M * ?q"
      using grid by (simp only: M_def)
    have "of_int M \<le> x / ?q"
      using px q by (simp add: gridM pos_le_divide_eq)
    then have "M \<le> round_half_even (x / ?q)"
      by (rule round_half_even_ge)
    then have "of_int M * ?q \<le> of_int (round_half_even (x / ?q)) * ?q"
      using q by simp
    then have "pow2 (dexp x) \<le> round_to_double x"
      by (simp add: round_to_double_pos [OF xpos] gridM)
    with tl show ?thesis
      by simp
  qed
qed

text \<open>A double lies on the same side of a rounded number as of the number itself.\<close>

lemma round_to_double_le:
  assumes "x \<le> t" and "round_to_double t = t"
  shows "round_to_double x \<le> t"
proof -
  consider "0 < x" | "x = 0" | "x < 0" "0 \<le> t" | "x < 0" "t < 0"
    by linarith
  then show ?thesis
  proof cases
    case 1
    then show ?thesis
      using round_to_double_le_double assms by simp
  next
    case 2
    then show ?thesis
      using assms(1) by (simp add: round_to_double_def)
  next
    case 3
    have "0 \<le> round_to_double (- x)"
      using 3(1) by (intro round_to_double_nonneg) simp
    then show ?thesis
      using 3(2) by (simp add: round_to_double_minus)
  next
    case 4
    have d: "round_to_double (- t) = - t"
      using assms(2) by (simp add: round_to_double_minus)
    have "- t \<le> round_to_double (- x)"
      using 4 assms(1) d by (intro double_le_round_to_double) simp_all
    then show ?thesis
      by (simp add: round_to_double_minus)
  qed
qed

lemma round_to_double_ge:
  assumes "t \<le> x" and "round_to_double t = t"
  shows "t \<le> round_to_double x"
proof -
  have d: "round_to_double (- t) = - t"
    using assms(2) by (simp add: round_to_double_minus)
  have "round_to_double (- x) \<le> - t"
    using assms(1) d by (intro round_to_double_le) simp_all
  then show ?thesis
    by (simp add: round_to_double_minus)
qed

text \<open>
  The window that the code keeps, in exact time: a double is below the rounded sum when it
  is below the exact sum and is not the rounded sum itself.
\<close>

lemma below_expiry_iff:
  assumes "round_to_double t = t"
  shows "t < py_float_add t0 d \<longleftrightarrow> t < t0 + d \<and> t \<noteq> py_float_add t0 d"
proof
  assume lt: "t < py_float_add t0 d"
  have "t < t0 + d"
  proof (rule ccontr)
    assume "\<not> t < t0 + d"
    then have "t0 + d \<le> t"
      by simp
    from round_to_double_le [OF this assms] show False
      using lt by (simp add: py_float_add_def)
  qed
  with lt show "t < t0 + d \<and> t \<noteq> py_float_add t0 d"
    by simp
next
  assume a: "t < t0 + d \<and> t \<noteq> py_float_add t0 d"
  then have "t \<le> t0 + d"
    by simp
  from round_to_double_ge [OF this assms] show "t < py_float_add t0 d"
    using a by (simp add: py_float_add_def)
qed

section \<open>The pattern matcher and the number parser\<close>

text \<open>
  The matcher written from the source agrees with the reading of the pattern as a
  language: a result \<open>Some ds\<close> exactly when the string starts with the digits \<open>ds\<close>,
  \<open>X\<close> and the unit letter, and \<open>None\<close> exactly when it starts with no such text.
  A run of digits is accepted by \<^verbatim>\<open>int()\<close> and read as its decimal value.
\<close>

lemma X_not_digit: "\<not> is_digit (CHR ''X'')"
  by (simp add: is_digit_def)

lemma digit_not_space: "is_digit c \<Longrightarrow> \<not> py_isspace c"
  by (auto simp: is_digit_def py_isspace_def)

lemma digit_not_sign: "is_digit c \<Longrightarrow> c \<noteq> CHR ''+'' \<and> c \<noteq> CHR ''-'' \<and> c \<noteq> CHR ''_''"
  by (auto simp: is_digit_def)

lemma take_append_eq:
  assumes "take (length p) s = p"
  shows "s = p @ drop (length p) s"
  using assms append_take_drop_id [of "length p" s] by simp

lemma temp_regex_match_prefix:
  assumes "ds \<noteq> []" and "list_all is_digit ds"
  shows "temp_regex_match u (ds @ CHR ''X'' # u @ rest) = Some ds"
proof -
  have all: "\<forall>c \<in> set ds. is_digit c"
    using assms(2) by (simp add: list_all_iff)
  have tw: "takeWhile is_digit (ds @ CHR ''X'' # u @ rest) = ds"
    using all X_not_digit by (simp add: takeWhile_append2)
  have dw: "dropWhile is_digit (ds @ CHR ''X'' # u @ rest) = CHR ''X'' # u @ rest"
    using all X_not_digit by (simp add: dropWhile_append2)
  show ?thesis
    using assms(1) by (simp add: temp_regex_match_def tw dw)
qed

lemma temp_regex_match_Some_iff:
  "temp_regex_match u s = Some ds \<longleftrightarrow> starts_with_temp u s ds"
proof
  assume m: "temp_regex_match u s = Some ds"
  let ?r = "dropWhile is_digit s"
  from m have ds: "ds = takeWhile is_digit s" and ne: "ds \<noteq> []"
    and tk: "take (length (CHR ''X'' # u)) ?r = CHR ''X'' # u"
    by (auto simp: temp_regex_match_def Let_def split: if_splits)
  have dig: "list_all is_digit ds"
    unfolding ds list_all_iff by (auto dest: set_takeWhileD)
  have s: "s = ds @ ?r"
    unfolding ds by simp
  have "take (length (ds @ CHR ''X'' # u)) (ds @ ?r) = ds @ take (length (CHR ''X'' # u)) ?r"
    by simp
  with tk s have "take (length (ds @ CHR ''X'' # u)) s = ds @ CHR ''X'' # u"
    by metis
  with ne dig show "starts_with_temp u s ds"
    by (simp add: starts_with_temp_def)
next
  assume st: "starts_with_temp u s ds"
  then have ne: "ds \<noteq> []" and dig: "list_all is_digit ds"
    and tk: "take (length (ds @ CHR ''X'' # u)) s = ds @ CHR ''X'' # u"
    by (simp_all add: starts_with_temp_def)
  from take_append_eq [OF tk]
  have "s = ds @ CHR ''X'' # u @ drop (length (ds @ CHR ''X'' # u)) s"
    by simp
  then show "temp_regex_match u s = Some ds"
    using temp_regex_match_prefix [OF ne dig] by metis
qed

lemma temp_regex_match_None_iff:
  "temp_regex_match u s = None \<longleftrightarrow> (\<forall>ds. \<not> starts_with_temp u s ds)"
  using temp_regex_match_Some_iff [of u s] by (cases "temp_regex_match u s") auto

lemma starts_with_temp_F_not_C:
  "starts_with_temp ''F'' s ds \<Longrightarrow> \<not> starts_with_temp ''C'' s ds'"
  unfolding temp_regex_match_Some_iff [symmetric]
  by (auto simp: temp_regex_match_def Let_def split: if_splits)

lemma scan_digits_all:
  "list_all is_digit ds \<Longrightarrow> ds \<noteq> [] \<or> \<not> need \<Longrightarrow>
   scan_digits need acc ds = Some (foldl (\<lambda>a c. 10 * a + digit_value c) acc ds)"
  by (induction ds arbitrary: need acc) auto

lemma dropWhile_hd: "xs \<noteq> [] \<Longrightarrow> \<not> P (hd xs) \<Longrightarrow> dropWhile P xs = xs"
  by (cases xs) auto

lemma py_strip_digits:
  assumes "ds \<noteq> []" and "list_all is_digit ds"
  shows "py_strip ds = ds"
proof -
  have "is_digit (hd ds)" and "is_digit (last ds)"
    using assms by (simp_all add: list_all_iff)
  then have 1: "dropWhile py_isspace ds = ds"
    and 2: "dropWhile py_isspace (rev ds) = rev ds"
    using assms(1) by (simp_all add: dropWhile_hd digit_not_space hd_rev)
  show ?thesis
    by (simp add: py_strip_def 1 2)
qed

lemma py_int_of_digits:
  assumes "ds \<noteq> []" and "list_all is_digit ds" and "length ds \<le> MAX_STR_DIGITS"
  shows "py_int_of_str ds = Inr (decimal_value ds)"
proof -
  from assms obtain c cs where ds: "ds = c # cs" and c: "is_digit c"
    by (cases ds) auto
  have sc: "scan_digits True 0 ds = Some (decimal_value ds)"
    using scan_digits_all [OF assms(2), of True 0] assms(1) by (simp add: decimal_value_def)
  have sg: "split_sign ds = (False, ds)"
    using digit_not_sign [OF c] by (simp add: split_sign_def ds)
  have fl: "filter is_digit ds = ds"
    using assms(2) by (simp add: list_all_iff)
  show ?thesis
    using assms(3) by (simp add: py_int_of_str_def py_strip_digits [OF assms(1,2)] sg fl sc)
qed

lemma py_int_of_many_digits:
  assumes "list_all is_digit ds" and "MAX_STR_DIGITS < length ds"
  shows "py_int_of_str ds = Inl ValueError"
proof -
  from assms have ne: "ds \<noteq> []"
    by auto
  then obtain c cs where ds: "ds = c # cs" and c: "is_digit c"
    using assms(1) by (cases ds) auto
  have sg: "split_sign ds = (False, ds)"
    using digit_not_sign [OF c] by (simp add: split_sign_def ds)
  have fl: "filter is_digit ds = ds"
    using assms(1) by (simp add: list_all_iff)
  show ?thesis
    using assms(2) by (simp add: py_int_of_str_def py_strip_digits [OF ne assms(1)] sg fl)
qed

subsection \<open>The parts of a call\<close>

lemma get_status_450:
  assumes "klass self = SteamistModel450"
  shows "snd (async_get_status E now self) =
           (case polled_response E self of Inl e \<Rightarrow> Inl e | Inr response \<Rightarrow>
            (case status_of_response now self response of
               Inl e \<Rightarrow> Inl e | Inr st \<Rightarrow> Inr (Some st)))"
  using assms
  by (simp add: async_get_status_def SteamistModel450_async_get_status_def polled_response_def
      split: prod.splits sum.splits)

lemma status_of_response_str:
  assumes "py_getitem response ''temp0'' = Inr (PyStr t0)"
    and "py_getitem response ''time0'' = Inr t"
    and "py_int t = Inr m"
    and "temp_of_groups (TEMP_REGEX_F t0) (TEMP_REGEX_C t0) = Inr (v, u)"
  shows "status_of_response now self response =
           Inr \<lparr>temp = v, temp_units = PyStr u, minutes_remain = PyInt m,
                seconds_remain = PyInt 0,
                active = (if transition_complete_time self > now then transiton_state self
                          else m > 0)\<rparr>"
  using assms by (simp add: status_of_response_def)

lemma status_of_response_active:
  assumes "status_of_response now self response = Inr st"
  shows "\<exists>m. minutes_remain st = PyInt m \<and>
             active st = (if transition_complete_time self > now then transiton_state self
                          else m > 0)"
  using assms by (auto simp: status_of_response_def split: sum.splits)

lemma temp_of_groups_F:
  assumes "starts_with_temp ''F'' t0 ds" and "length ds \<le> MAX_STR_DIGITS"
  shows "temp_of_groups (TEMP_REGEX_F t0) (TEMP_REGEX_C t0) = Inr (PyInt (decimal_value ds), ''F'')"
proof -
  have m: "TEMP_REGEX_F t0 = Some ds"
    using assms(1) by (simp add: TEMP_REGEX_F_def temp_regex_match_Some_iff)
  have "ds \<noteq> []" and "list_all is_digit ds"
    using assms(1) by (simp_all add: starts_with_temp_def)
  then show ?thesis
    using assms(2) by (simp add: temp_of_groups_def m py_int_of_digits)
qed

lemma temp_of_groups_C:
  assumes "starts_with_temp ''C'' t0 ds" and "length ds \<le> MAX_STR_DIGITS"
  shows "temp_of_groups (TEMP_REGEX_F t0) (TEMP_REGEX_C t0) = Inr (PyInt (decimal_value ds), ''C'')"
proof -
  have c: "TEMP_REGEX_C t0 = Some ds"
    using assms(1) by (simp add: TEMP_REGEX_C_def temp_regex_match_Some_iff)
  have "\<forall>ds'. \<not> starts_with_temp ''F'' t0 ds'"
    using assms(1) starts_with_temp_F_not_C by blast
  then have f: "TEMP_REGEX_F t0 = None"
    by (simp add: TEMP_REGEX_F_def temp_regex_match_None_iff)
  have "ds \<noteq> []" and "list_all is_digit ds"
    using assms(1) by (simp_all add: starts_with_temp_def)
  then show ?thesis
    using assms(2) by (simp add: temp_of_groups_def c f py_int_of_digits)
qed

lemma temp_of_groups_too_long:
  assumes "starts_with_temp u t0 ds" and "u = ''F'' \<or> u = ''C''"
    and "MAX_STR_DIGITS < length ds"
  shows "temp_of_groups (TEMP_REGEX_F t0) (TEMP_REGEX_C t0) = Inl ValueError"
proof -
  have dig: "list_all is_digit ds"
    using assms(1) by (simp add: starts_with_temp_def)
  have err: "py_int_of_str ds = Inl ValueError"
    using py_int_of_many_digits [OF dig assms(3)] .
  from assms(2) show ?thesis
  proof
    assume u: "u = ''F''"
    have "TEMP_REGEX_F t0 = Some ds"
      using assms(1) by (simp add: u TEMP_REGEX_F_def temp_regex_match_Some_iff)
    then show ?thesis
      by (simp add: temp_of_groups_def err)
  next
    assume u: "u = ''C''"
    have c: "TEMP_REGEX_C t0 = Some ds"
      using assms(1) by (simp add: u TEMP_REGEX_C_def temp_regex_match_Some_iff)
    have "\<forall>ds'. \<not> starts_with_temp ''F'' t0 ds'"
      using assms(1) starts_with_temp_F_not_C unfolding u by blast
    then have f: "TEMP_REGEX_F t0 = None"
      by (simp add: TEMP_REGEX_F_def temp_regex_match_None_iff)
    show ?thesis
      by (simp add: temp_of_groups_def c f err)
  qed
qed

lemma temp_of_groups_none:
  assumes "\<forall>ds. \<not> starts_with_temp ''F'' t0 ds" and "\<forall>ds. \<not> starts_with_temp ''C'' t0 ds"
  shows "temp_of_groups (TEMP_REGEX_F t0) (TEMP_REGEX_C t0) = Inr (PyNone, ''F'')"
proof -
  have f: "TEMP_REGEX_F t0 = None"
    using assms(1) by (simp add: TEMP_REGEX_F_def temp_regex_match_None_iff)
  have c: "TEMP_REGEX_C t0 = None"
    using assms(2) by (simp add: TEMP_REGEX_C_def temp_regex_match_None_iff)
  show ?thesis
    by (simp add: temp_of_groups_def f c)
qed

lemma set_led_450:
  assumes "websession self = Some ws"
  shows "async_set_led E self led =
           ([HttpGet ws (led_request self led)],
            (case session_request E ws (led_request self led) of
               Inl e \<Rightarrow> Inl e | Inr body \<Rightarrow> Inr ()))"
  using assms
  by (simp add: async_set_led_def steamist_get_def led_request_def SET_ENDPOINT_def Let_def)

lemma exec_command_cases:
  "(\<exists>tr. exec_command E now c self = (tr, Inr (), async_set_transition now (c = TurnOn) self))
   \<or> (\<exists>tr e. exec_command E now c self = (tr, Inl e, self))"
  by (cases c)
     (auto simp: exec_command_def async_turn_on_steam_def async_turn_off_steam_def
        Steamist_async_turn_on_steam_def Steamist_async_turn_off_steam_def
        SteamistModel450_async_turn_on_steam_def SteamistModel450_async_turn_off_steam_def
        split: cls.splits prod.splits sum.splits)

lemma exec_command_frame:
  "klass (snd (snd (exec_command E now c self))) = klass self \<and>
   host (snd (snd (exec_command E now c self))) = host self \<and>
   timeout (snd (snd (exec_command E now c self))) = timeout self \<and>
   websession (snd (snd (exec_command E now c self))) = websession self"
  using exec_command_cases [of E now c self]
  by (elim disjE exE) (simp_all add: async_set_transition_def)

lemma run_commands_frame:
  "klass (run_commands cs self) = klass self \<and>
   host (run_commands cs self) = host self \<and>
   timeout (run_commands cs self) = timeout self \<and>
   websession (run_commands cs self) = websession self"
proof (induction cs arbitrary: self)
  case Nil
  show ?case by simp
next
  case (Cons x cs)
  obtain E now c where x: "x = (E, now, c)"
    by (cases x)
  show ?case
    using Cons.IH [of "snd (snd (exec_command E now c self))"] exec_command_frame [of E now c self]
    by (simp add: x)
qed

lemma run_commands_append:
  "run_commands (cs @ ds) self = run_commands ds (run_commands cs self)"
  by (induction cs self rule: run_commands.induct) simp_all

lemma exec_command_result_frame:
  assumes "klass a = klass b" and "host a = host b" and "timeout a = timeout b"
    and "websession a = websession b"
  shows "fst (exec_command E now c a) = fst (exec_command E now c b) \<and>
         fst (snd (exec_command E now c a)) = fst (snd (exec_command E now c b))"
  using assms
  by (cases c)
     (auto simp: exec_command_def async_turn_on_steam_def async_turn_off_steam_def
        Steamist_async_turn_on_steam_def Steamist_async_turn_off_steam_def
        SteamistModel450_async_turn_on_steam_def SteamistModel450_async_turn_off_steam_def
        async_set_led_def steamist_get_def Let_def
        split: cls.splits prod.splits sum.splits option.splits)

lemma exec_command_success:
  assumes "fst (snd (exec_command E now c self)) = Inr ()"
  shows "snd (snd (exec_command E now c self)) = async_set_transition now (c = TurnOn) self"
  using exec_command_cases [of E now c self] assms
  by (elim disjE exE) simp_all

lemma exec_command_not_450:
  assumes "klass self \<noteq> SteamistModel450"
  shows "exec_command E now c self = ([], Inr (), async_set_transition now (c = TurnOn) self)"
  using assms
  by (cases c; cases "klass self")
     (simp_all add: exec_command_def async_turn_on_steam_def async_turn_off_steam_def
        Steamist_async_turn_on_steam_def Steamist_async_turn_off_steam_def)

subsection \<open>The device on the bench\<close>

lemma bench_450_klass: "klass bench_450 = SteamistModel450"
  by (simp add: bench_450_def SteamistModel450_init_def Steamist_init_def)

lemma bench_polled_response:
  "polled_response (bench_env t0 t) bench_450 =
     Inr (PyDict [(''temp0'', PyStr t0), (''time0'', PyStr t)])"
  by (simp add: polled_response_def steamist_get_def bench_450_def SteamistModel450_init_def
      Steamist_init_def bench_env_def STATUS_ENDPOINT_def)

section \<open>The claims\<close>

text \<open>
  Claim C1 says that every \<^verbatim>\<open>get_status()\<close> within 10 seconds after a \<^verbatim>\<open>turn_on()\<close>
  reports \<open>active = True\<close>. The expiry the code stores is the sum of doubles
  \<^verbatim>\<open>time.monotonic() + 10\<close>, which may round below the exact sum. With the transition
  armed at the double \<open>0.1\<close> and the status polled at the double \<open>10.1\<close>, less than 10
  seconds later, the stored expiry is \<open>10.1\<close> itself, the comparison is strict, and the
  polled \<open>time0 = 0\<close> decides: the status is not active.
\<close>

theorem transition_window_edge_counterexample:
  "round_to_double (1 / 10) = 3602879701896397 / 36028797018963968
   \<and> round_to_double (101 / 10) = 5685794529555251 / 562949953421312
   \<and> (5685794529555251 / 562949953421312 :: real) < 3602879701896397 / 36028797018963968 + 10
   \<and> fst (snd (async_turn_on_steam (bench_env ''105XF'' ''0'')
         (3602879701896397 / 36028797018963968) bench_450)) = Inr ()
   \<and> snd (async_get_status (bench_env ''105XF'' ''0'') (5685794529555251 / 562949953421312)
         (snd (snd (async_turn_on_steam (bench_env ''105XF'' ''0'')
            (3602879701896397 / 36028797018963968) bench_450))))
       = Inr (Some \<lparr>temp = PyInt 105, temp_units = PyStr ''F'', minutes_remain = PyInt 0,
                  seconds_remain = PyInt 0, active = False\<rparr>)"
  by code_simp

text \<open>
  Claim C1, amended. On the HTTP/XML adapter, after a \<^verbatim>\<open>turn_on()\<close> (resp.
  \<^verbatim>\<open>turn_off()\<close>) that completed with the clock at \<open>t0\<close>, every status that
  \<^verbatim>\<open>get_status()\<close> returns with a clock reading below the stored expiry, the sum of
  doubles \<open>t0 + 10\<close>, has \<open>active = True\<close> (resp. \<open>False\<close>), whatever the device replied
  to the poll, and every other one has \<open>active = (minutes_remain > 0)\<close>. A clock reading
  is a double, and for a double to be below the stored expiry is to be less than 10
  seconds after \<open>t0\<close> and different from the stored expiry: the claim holds but for the
  one reading equal to an expiry that rounded down.
\<close>

theorem transition_overrides_polled_state:
  assumes "klass self = SteamistModel450"
    and "snd (async_get_status E t self1) = Inr r"
  shows "(async_turn_on_steam E0 t0 self = (tr, Inr (), self1) \<longrightarrow>
            (\<exists>st m. r = Some st \<and> minutes_remain st = PyInt m \<and>
                    active st = (if t < py_float_add t0 10 then True else m > 0) \<and>
                    (round_to_double t = t \<longrightarrow>
                       active st = (if t < t0 + 10 \<and> t \<noteq> py_float_add t0 10 then True
                                    else m > 0))))
       \<and> (async_turn_off_steam E0 t0 self = (tr, Inr (), self1) \<longrightarrow>
            (\<exists>st m. r = Some st \<and> minutes_remain st = PyInt m \<and>
                    active st = (if t < py_float_add t0 10 then False else m > 0) \<and>
                    (round_to_double t = t \<longrightarrow>
                       active st = (if t < t0 + 10 \<and> t \<noteq> py_float_add t0 10 then False
                                    else m > 0))))"
proof -
  have armed: "\<exists>st m. r = Some st \<and> minutes_remain st = PyInt m \<and>
                 active st = (if t < py_float_add t0 10 then b else m > 0) \<and>
                 (round_to_double t = t \<longrightarrow>
                    active st = (if t < t0 + 10 \<and> t \<noteq> py_float_add t0 10 then b else m > 0))"
    if s1: "self1 = async_set_transition t0 b self" for b
  proof -
    have k: "klass self1 = SteamistModel450"
      using assms(1) by (simp add: s1 async_set_transition_def)
    have tc: "transition_complete_time self1 = py_float_add t0 10"
      and ts: "transiton_state self1 = b"
      by (simp_all add: s1 async_set_transition_def)
    from assms(2) obtain response st where r: "r = Some st"
      and st: "status_of_response t self1 response = Inr st"
      unfolding get_status_450 [OF k] by (auto split: sum.splits)
    have "\<exists>m. minutes_remain st = PyInt m \<and>
            active st = (if t < py_float_add t0 10 then b else m > 0)"
      using status_of_response_active [OF st] by (simp only: tc ts)
    then obtain m where m: "minutes_remain st = PyInt m"
      and a: "active st = (if t < py_float_add t0 10 then b else m > 0)"
      by blast
    have "active st = (if t < t0 + 10 \<and> t \<noteq> py_float_add t0 10 then b else m > 0)"
      if "round_to_double t = t"
      using a below_expiry_iff [OF that, of t0 10] by simp
    with r m a show ?thesis
      by blast
  qed
  have on: "self1 = async_set_transition t0 True self"
    if "async_turn_on_steam E0 t0 self = (tr, Inr (), self1)"
    using that assms(1)
    by (auto simp: async_turn_on_steam_def SteamistModel450_async_turn_on_steam_def
        split: prod.splits sum.splits)
  have off: "self1 = async_set_transition t0 False self"
    if "async_turn_off_steam E0 t0 self = (tr, Inr (), self1)"
    using that assms(1)
    by (auto simp: async_turn_off_steam_def SteamistModel450_async_turn_off_steam_def
        split: prod.splits sum.splits)
  show ?thesis
    using armed [OF on] armed [OF off] by blast
qed

text \<open>
  Claim C1, amended, on the bench, where 100, 105 and 110 are doubles. Steam turned on at
  100, expiry 110: a poll at 105 with \<open>time0 = 0\<close> reads active. Steam turned off at 100,
  expiry 110: a poll at 105 with \<open>time0 = 7\<close> reads not active, a poll at 110 reads
  active again.
\<close>

theorem transition_overrides_polled_state_witness:
  "klass bench_450 = SteamistModel450
   \<and> py_float_add 100 10 = 110
   \<and> round_to_double 105 = 105 \<and> round_to_double 110 = 110
   \<and> async_turn_on_steam (bench_env ''105XF'' ''0'') 100 bench_450 =
       ([HttpGet (ClientSession 0) (led_request bench_450 6)], Inr (),
        async_set_transition 100 True bench_450)
   \<and> async_turn_off_steam (bench_env ''105XF'' ''0'') 100 bench_450 =
       ([HttpGet (ClientSession 0) (led_request bench_450 7)], Inr (),
        async_set_transition 100 False bench_450)
   \<and> (\<exists>st. snd (async_get_status (bench_env ''105XF'' ''0'') 105
                  (async_set_transition 100 True bench_450)) = Inr (Some st) \<and>
             minutes_remain st = PyInt 0 \<and> active st = True)
   \<and> (\<exists>st. snd (async_get_status (bench_env ''105XF'' ''7'') 105
                  (async_set_transition 100 False bench_450)) = Inr (Some st) \<and>
             minutes_remain st = PyInt 7 \<and> active st = False)
   \<and> (\<exists>st. snd (async_get_status (bench_env ''105XF'' ''7'') 110
                  (async_set_transition 100 False bench_450)) = Inr (Some st) \<and>
             minutes_remain st = PyInt 7 \<and> active st = True)"
proof -
  let ?on = "async_set_transition 100 True bench_450"
  let ?off = "async_set_transition 100 False bench_450"
  let ?tr = "[HttpGet (ClientSession 0) (led_request bench_450 6)]"
  let ?tr' = "[HttpGet (ClientSession 0) (led_request bench_450 7)]"
  let ?s1 = "\<lparr>temp = PyInt 105, temp_units = PyStr ''F'', minutes_remain = PyInt 0,
             seconds_remain = PyInt 0, active = True\<rparr>"
  let ?s2 = "\<lparr>temp = PyInt 105, temp_units = PyStr ''F'', minutes_remain = PyInt 7,
             seconds_remain = PyInt 0, active = False\<rparr>"
  let ?s3 = "\<lparr>temp = PyInt 105, temp_units = PyStr ''F'', minutes_remain = PyInt 7,
             seconds_remain = PyInt 0, active = True\<rparr>"
  have k: "klass bench_450 = SteamistModel450"
    by code_simp
  have e: "py_float_add 100 10 = 110"
    by code_simp
  have d5: "round_to_double 105 = 105" and d10: "round_to_double 110 = 110"
    by code_simp+
  have on: "async_turn_on_steam (bench_env ''105XF'' ''0'') 100 bench_450 = (?tr, Inr (), ?on)"
    by code_simp
  have off: "async_turn_off_steam (bench_env ''105XF'' ''0'') 100 bench_450 = (?tr', Inr (), ?off)"
    by code_simp
  have g1: "snd (async_get_status (bench_env ''105XF'' ''0'') 105 ?on) = Inr (Some ?s1)"
    by code_simp
  have g2: "snd (async_get_status (bench_env ''105XF'' ''7'') 105 ?off) = Inr (Some ?s2)"
    by code_simp
  have g3: "snd (async_get_status (bench_env ''105XF'' ''7'') 110 ?off) = Inr (Some ?s3)"
    by code_simp
  from transition_overrides_polled_state [OF k g1, of "bench_env ''105XF'' ''0''" 100 ?tr] on d5
  have a: "\<exists>st m. Some ?s1 = Some st \<and> minutes_remain st = PyInt m \<and>
             active st = (if (105::real) < 100 + 10 \<and> (105::real) \<noteq> py_float_add 100 10
                          then True else m > 0)"
    by blast
  from transition_overrides_polled_state [OF k g2, of "bench_env ''105XF'' ''0''" 100 ?tr'] off d5
  have b: "\<exists>st m. Some ?s2 = Some st \<and> minutes_remain st = PyInt m \<and>
             active st = (if (105::real) < 100 + 10 \<and> (105::real) \<noteq> py_float_add 100 10
                          then False else m > 0)"
    by blast
  from transition_overrides_polled_state [OF k g3, of "bench_env ''105XF'' ''0''" 100 ?tr'] off d10
  have c: "\<exists>st m. Some ?s3 = Some st \<and> minutes_remain st = PyInt m \<and>
             active st = (if (110::real) < 100 + 10 \<and> (110::real) \<noteq> py_float_add 100 10
                          then False else m > 0)"
    by blast
  show ?thesis
    using k e d5 d10 on off a b c by (simp add: g1 g2 g3)
qed

text \<open>
  Claim C2 says that a \<open>temp0\<close> matching neither pattern makes \<^verbatim>\<open>get_status()\<close> fail.
  The source initialises \<^verbatim>\<open>temp = None\<close> and \<^verbatim>\<open>units = "F"\<close> and raises nowhere: for
  \<open>temp0 = hot\<close> the call returns a status without a temperature.
\<close>

theorem unmatched_temp_counterexample:
  "TEMP_REGEX_F ''hot'' = None \<and> TEMP_REGEX_C ''hot'' = None \<and>
   snd (async_get_status (bench_env ''hot'' ''0'') 0 bench_450) =
     Inr (Some \<lparr>temp = PyNone, temp_units = PyStr ''F'', minutes_remain = PyInt 0,
                seconds_remain = PyInt 0, active = False\<rparr>)"
  by code_simp

text \<open>
  Claim C2, amended. For every \<open>temp0\<close> string that starts with a match of neither
  pattern, \<^verbatim>\<open>get_status()\<close> of the HTTP/XML adapter does not fail on that account: when
  the reply has a \<open>time0\<close> that \<^verbatim>\<open>int()\<close> accepts, the call returns a status whose
  \<open>temp\<close> is \<open>None\<close> and whose \<open>temp_units\<close> is \<open>F\<close>.
\<close>

theorem unmatched_temp_returns_none:
  assumes "klass self = SteamistModel450"
    and "polled_response E self = Inr response"
    and "py_getitem response ''temp0'' = Inr (PyStr t0)"
    and "\<forall>ds. \<not> starts_with_temp ''F'' t0 ds"
    and "\<forall>ds. \<not> starts_with_temp ''C'' t0 ds"
    and "py_getitem response ''time0'' = Inr t"
    and "py_int t = Inr m"
  shows "\<exists>st. snd (async_get_status E now self) = Inr (Some st) \<and>
              temp st = PyNone \<and> temp_units st = PyStr ''F''"
  using status_of_response_str [OF assms(3) assms(6) assms(7)
      temp_of_groups_none [OF assms(4) assms(5)], of now self]
  by (simp add: get_status_450 [OF assms(1)] assms(2))

text \<open>
  Claim C2, amended, on the bench with \<open>temp0 = hot\<close>.
\<close>

theorem unmatched_temp_returns_none_witness:
  "klass bench_450 = SteamistModel450
   \<and> polled_response (bench_env ''hot'' ''0'') bench_450 =
       Inr (PyDict [(''temp0'', PyStr ''hot''), (''time0'', PyStr ''0'')])
   \<and> py_int (PyStr ''0'') = Inr 0
   \<and> (\<exists>st. snd (async_get_status (bench_env ''hot'' ''0'') 0 bench_450) = Inr (Some st) \<and>
             temp st = PyNone \<and> temp_units st = PyStr ''F'')"
proof -
  let ?resp = "PyDict [(''temp0'', PyStr ''hot''), (''time0'', PyStr ''0'')]"
  have k: "klass bench_450 = SteamistModel450"
    by code_simp
  have p: "polled_response (bench_env ''hot'' ''0'') bench_450 = Inr ?resp"
    by code_simp
  have t0: "py_getitem ?resp ''temp0'' = Inr (PyStr ''hot'')"
    by code_simp
  have t: "py_getitem ?resp ''time0'' = Inr (PyStr ''0'')"
    by code_simp
  have i: "py_int (PyStr ''0'') = Inr 0"
    by code_simp
  have "temp_regex_match ''F'' ''hot'' = None"
    by code_simp
  then have nf: "\<forall>ds. \<not> starts_with_temp ''F'' ''hot'' ds"
    by (simp add: temp_regex_match_None_iff)
  have "temp_regex_match ''C'' ''hot'' = None"
    by code_simp
  then have nc: "\<forall>ds. \<not> starts_with_temp ''C'' ''hot'' ds"
    by (simp add: temp_regex_match_None_iff)
  from unmatched_temp_returns_none [OF k p t0 nf nc t i, of 0] show ?thesis
    using k p i by simp
qed

text \<open>
  Claim C3 says that the discovery adapter's \<^verbatim>\<open>get_status()\<close> fails with a NotFoundError
  when the scan finds no device. The source has no branch for the empty list: the method,
  annotated to return a SteamistStatus, falls off its end and returns \<open>None\<close>. Here is the
  call on a 550 adapter made by the factory, with a scan that finds nothing.
\<close>

theorem model550_no_device_returns_none:
  "async_get_status (bench_env ''105XF'' ''0'') 0
     (create_steamist_from (bench_env ''105XF'' ''0'') ''192.168.1.20'' ''550''
        (\<lambda>u. ClientSession 0))
   = ([Scan 5 ''192.168.1.20''], Inr None)"
  by code_simp

text \<open>
  Claim C4 says that every \<open>temp0\<close> that matches the Fahrenheit pattern yields its digits
  as the temperature. \<^verbatim>\<open>int()\<close> refuses more than 4300 digits: for a \<open>temp0\<close> of 4301
  digits followed by \<open>XF\<close> the pattern matches, the group is the whole run of digits, and
  \<^verbatim>\<open>get_status()\<close> raises ValueError.
\<close>

theorem long_temp_counterexample:
  "TEMP_REGEX_F (replicate 4301 (CHR ''1'') @ ''XF'') = Some (replicate 4301 (CHR ''1''))
   \<and> snd (async_get_status (bench_env (replicate 4301 (CHR ''1'') @ ''XF'') ''0'') 0 bench_450)
       = Inl ValueError"
proof -
  let ?ds = "replicate 4301 (CHR ''1'')"
  let ?t0 = "?ds @ ''XF''"
  have ne: "?ds \<noteq> []"
    by simp
  have dig: "list_all is_digit ?ds"
    by (simp add: list_all_iff is_digit_def)
  have m: "temp_regex_match ''F'' ?t0 = Some ?ds"
    using temp_regex_match_prefix [OF ne dig, of "''F''" "[]"] by simp
  then have st: "starts_with_temp ''F'' ?t0 ?ds"
    by (simp add: temp_regex_match_Some_iff)
  have long: "MAX_STR_DIGITS < length ?ds"
    by (simp add: MAX_STR_DIGITS_def)
  have err: "temp_of_groups (TEMP_REGEX_F ?t0) (TEMP_REGEX_C ?t0) = Inl ValueError"
    using temp_of_groups_too_long [OF st _ long] by simp
  have "status_of_response 0 bench_450
          (PyDict [(''temp0'', PyStr ?t0), (''time0'', PyStr ''0'')]) = Inl ValueError"
    by (simp add: status_of_response_def err)
  then have "snd (async_get_status (bench_env ?t0 ''0'') 0 bench_450) = Inl ValueError"
    by (simp add: get_status_450 [OF bench_450_klass] bench_polled_response)
  with m show ?thesis
    by (simp add: TEMP_REGEX_F_def)
qed

text \<open>
  Claim C4, amended. When \<open>temp0\<close> starts with digits \<open>ds\<close>, at most 4300 of them,
  followed by \<open>XF\<close>, the HTTP/XML adapter's \<^verbatim>\<open>get_status()\<close> returns \<open>temp\<close> equal to the
  decimal value of \<open>ds\<close> and \<open>temp_units = F\<close>; when it starts with at most 4300 digits
  \<open>ds\<close> followed by \<open>XC\<close> and with no match of the Fahrenheit pattern, it returns that
  value and \<open>temp_units = C\<close>. The Fahrenheit match is looked at first: once it has a
  group, the Celsius result plays no part. The reply is assumed to have a \<open>time0\<close> that
  \<^verbatim>\<open>int()\<close> accepts, as the call needs it to return at all.
\<close>

theorem matched_temp_extracted:
  assumes "klass self = SteamistModel450"
    and "polled_response E self = Inr response"
    and "py_getitem response ''temp0'' = Inr (PyStr t0)"
    and "py_getitem response ''time0'' = Inr t"
    and "py_int t = Inr m"
  shows "(starts_with_temp ''F'' t0 ds \<and> length ds \<le> MAX_STR_DIGITS \<longrightarrow>
            (\<exists>st. snd (async_get_status E now self) = Inr (Some st) \<and>
                  temp st = PyInt (decimal_value ds) \<and> temp_units st = PyStr ''F''))
       \<and> (starts_with_temp ''C'' t0 ds \<and> length ds \<le> MAX_STR_DIGITS \<and>
          \<not> (\<exists>ds'. starts_with_temp ''F'' t0 ds') \<longrightarrow>
            (\<exists>st. snd (async_get_status E now self) = Inr (Some st) \<and>
                  temp st = PyInt (decimal_value ds) \<and> temp_units st = PyStr ''C''))
       \<and> temp_of_groups (Some g) groups_c = temp_of_groups (Some g) None"
proof (intro conjI impI)
  assume "starts_with_temp ''F'' t0 ds \<and> length ds \<le> MAX_STR_DIGITS"
  then have s: "starts_with_temp ''F'' t0 ds" and l: "length ds \<le> MAX_STR_DIGITS"
    by simp_all
  from status_of_response_str [OF assms(3) assms(4) assms(5) temp_of_groups_F [OF s l], of now self]
  show "\<exists>st. snd (async_get_status E now self) = Inr (Some st) \<and>
              temp st = PyInt (decimal_value ds) \<and> temp_units st = PyStr ''F''"
    by (simp add: get_status_450 [OF assms(1)] assms(2))
next
  assume "starts_with_temp ''C'' t0 ds \<and> length ds \<le> MAX_STR_DIGITS \<and>
          \<not> (\<exists>ds'. starts_with_temp ''F'' t0 ds')"
  then have s: "starts_with_temp ''C'' t0 ds" and l: "length ds \<le> MAX_STR_DIGITS"
    by simp_all
  from status_of_response_str [OF assms(3) assms(4) assms(5) temp_of_groups_C [OF s l], of now self]
  show "\<exists>st. snd (async_get_status E now self) = Inr (Some st) \<and>
              temp st = PyInt (decimal_value ds) \<and> temp_units st = PyStr ''C''"
    by (simp add: get_status_450 [OF assms(1)] assms(2))
next
  show "temp_of_groups (Some g) groups_c = temp_of_groups (Some g) None"
    by (simp add: temp_of_groups_def)
qed

text \<open>
  Claim C4, amended, on the bench: \<open>105XF\<close> reads as 105 degrees Fahrenheit, \<open>40XC\<close> as
  40 degrees Celsius.
\<close>

theorem matched_temp_extracted_witness:
  "starts_with_temp ''F'' ''105XF'' ''105'' \<and> length ''105'' \<le> MAX_STR_DIGITS
   \<and> (\<exists>st. snd (async_get_status (bench_env ''105XF'' ''12'') 0 bench_450) = Inr (Some st) \<and>
             temp st = PyInt 105 \<and> temp_units st = PyStr ''F'')
   \<and> starts_with_temp ''C'' ''40XC'' ''40'' \<and> length ''40'' \<le> MAX_STR_DIGITS
   \<and> (\<exists>st. snd (async_get_status (bench_env ''40XC'' ''12'') 0 bench_450) = Inr (Some st) \<and>
             temp st = PyInt 40 \<and> temp_units st = PyStr ''C'')"
proof -
  let ?rf = "PyDict [(''temp0'', PyStr ''105XF''), (''time0'', PyStr ''12'')]"
  let ?rc = "PyDict [(''temp0'', PyStr ''40XC''), (''time0'', PyStr ''12'')]"
  have k: "klass bench_450 = SteamistModel450"
    by code_simp
  have pf: "polled_response (bench_env ''105XF'' ''12'') bench_450 = Inr ?rf"
    by code_simp
  have pc: "polled_response (bench_env ''40XC'' ''12'') bench_450 = Inr ?rc"
    by code_simp
  have tf: "py_getitem ?rf ''temp0'' = Inr (PyStr ''105XF'')"
    and tc: "py_getitem ?rc ''temp0'' = Inr (PyStr ''40XC'')"
    and mf: "py_getitem ?rf ''time0'' = Inr (PyStr ''12'')"
    and mc: "py_getitem ?rc ''time0'' = Inr (PyStr ''12'')"
    by code_simp+
  have i: "py_int (PyStr ''12'') = Inr 12"
    by code_simp
  have sf: "starts_with_temp ''F'' ''105XF'' ''105''"
    by code_simp
  have sc: "starts_with_temp ''C'' ''40XC'' ''40''"
    by code_simp
  have lf: "length ''105'' \<le> MAX_STR_DIGITS" and lc: "length ''40'' \<le> MAX_STR_DIGITS"
    by (simp_all add: MAX_STR_DIGITS_def)
  have "temp_regex_match ''F'' ''40XC'' = None"
    by code_simp
  then have nf: "\<not> (\<exists>ds'. starts_with_temp ''F'' ''40XC'' ds')"
    by (simp add: temp_regex_match_None_iff)
  have df: "decimal_value ''105'' = 105" and dc: "decimal_value ''40'' = 40"
    by code_simp+
  from matched_temp_extracted [OF k pf tf mf i, of "''105''" 0] sf lf
  have a: "\<exists>st. snd (async_get_status (bench_env ''105XF'' ''12'') 0 bench_450) = Inr (Some st) \<and>
             temp st = PyInt 105 \<and> temp_units st = PyStr ''F''"
    by (simp add: df)
  from matched_temp_extracted [OF k pc tc mc i, of "''40''" 0] sc lc nf
  have b: "\<exists>st. snd (async_get_status (bench_env ''40XC'' ''12'') 0 bench_450) = Inr (Some st) \<and>
             temp st = PyInt 40 \<and> temp_units st = PyStr ''C''"
    by (simp add: dc)
  show ?thesis
    using sf sc lf lc a b by blast
qed

text \<open>
  Claim C5. A status made from discovery attributes takes \<open>temp\<close> from
  \<open>temperature\<close>, \<open>temp_units\<close> from \<open>temp_unit\<close>, \<open>minutes_remain\<close> from
  \<open>minutesleft\<close>, \<open>seconds_remain\<close> from \<open>secondsleft\<close>, and is active exactly when
  \<open>profile != 0\<close>; for an integer profile \<open>n\<close> that is \<open>n \<noteq> 0\<close>.
\<close>

theorem create_from_device_30303_fields:
  assumes "additional_data d = PyDict kvs"
    and "map_of kvs ''temperature'' = Some t"
    and "map_of kvs ''temp_unit'' = Some u"
    and "map_of kvs ''minutesleft'' = Some m"
    and "map_of kvs ''secondsleft'' = Some s"
    and "map_of kvs ''profile'' = Some p"
  shows "create_from_device_30303 d =
           Inr \<lparr>temp = t, temp_units = u, minutes_remain = m, seconds_remain = s,
                active = py_ne_zero p\<rparr>
         \<and> (\<forall>n. p = PyInt n \<longrightarrow> py_ne_zero p = (n \<noteq> 0))"
  using assms by (simp add: create_from_device_30303_def)

text \<open>
  Claim C5, the example of the specification: temperature 105, unit F, 3 minutes and 45
  seconds left, profile 1.
\<close>

theorem create_from_device_30303_example:
  "create_from_device_30303
     \<lparr>additional_data = PyDict [(''temperature'', PyInt 105), (''temp_unit'', PyStr ''F''),
        (''minutesleft'', PyInt 3), (''secondsleft'', PyInt 45), (''profile'', PyInt 1)]\<rparr>
   = Inr \<lparr>temp = PyInt 105, temp_units = PyStr ''F'', minutes_remain = PyInt 3,
          seconds_remain = PyInt 45, active = True\<rparr>"
  using create_from_device_30303_fields
    [of "\<lparr>additional_data = PyDict [(''temperature'', PyInt 105), (''temp_unit'', PyStr ''F''),
          (''minutesleft'', PyInt 3), (''secondsleft'', PyInt 45), (''profile'', PyInt 1)]\<rparr>"
        "[(''temperature'', PyInt 105), (''temp_unit'', PyStr ''F''),
          (''minutesleft'', PyInt 3), (''secondsleft'', PyInt 45), (''profile'', PyInt 1)]"
        "PyInt 105" "PyStr ''F''" "PyInt 3" "PyInt 45" "PyInt 1"]
  by simp

text \<open>
  Claim C6. The factory returns a SteamistModel550 instance, whose \<^verbatim>\<open>model()\<close> is the
  550 constant, when the model string is that constant, and a SteamistModel450 instance
  holding a fresh session for every other model string; the 450 constant is one of them
  when the two constants differ.
\<close>

theorem create_steamist_from_selects:
  "klass (create_steamist_from E h (MODEL_550 E) wsf) = SteamistModel550
   \<and> model E (klass (create_steamist_from E h (MODEL_550 E) wsf)) = Inr (MODEL_550 E)
   \<and> (m \<noteq> MODEL_550 E \<longrightarrow>
        klass (create_steamist_from E h m wsf) = SteamistModel450 \<and>
        websession (create_steamist_from E h m wsf) = Some (wsf ()) \<and>
        host (create_steamist_from E h m wsf) = h)
   \<and> (MODEL_450 E \<noteq> MODEL_550 E \<longrightarrow>
        klass (create_steamist_from E h (MODEL_450 E) wsf) = SteamistModel450)"
  by (simp add: create_steamist_from_def SteamistModel550_model_def model_def
      Steamist_init_def SteamistModel450_init_def)

text \<open>
  Claim C6 on the bench, with the model strings \<open>sauna\<close>, \<open>450\<close> and \<open>550\<close>.
\<close>

theorem create_steamist_from_selects_witness:
  "''sauna'' \<noteq> MODEL_550 (bench_env ''105XF'' ''0'')
   \<and> klass (create_steamist_from (bench_env ''105XF'' ''0'') ''192.168.1.20'' ''sauna''
        (\<lambda>u. ClientSession 3)) = SteamistModel450
   \<and> MODEL_450 (bench_env ''105XF'' ''0'') \<noteq> MODEL_550 (bench_env ''105XF'' ''0'')
   \<and> klass (create_steamist_from (bench_env ''105XF'' ''0'') ''192.168.1.20'' ''450''
        (\<lambda>u. ClientSession 3)) = SteamistModel450
   \<and> klass (create_steamist_from (bench_env ''105XF'' ''0'') ''192.168.1.20'' ''550''
        (\<lambda>u. ClientSession 3)) = SteamistModel550"
  using create_steamist_from_selects
    [of "bench_env ''105XF'' ''0''" "''192.168.1.20''" "\<lambda>u. ClientSession 3" "''sauna''"]
  by (simp add: bench_env_def)

text \<open>
  Claim C7 says that all four operations fail on the base type. The base class
  implements \<^verbatim>\<open>turn_on\<close> and \<^verbatim>\<open>turn_off\<close> itself (the 550 adapter inherits them): on a
  base instance they return normally.
\<close>

theorem base_turn_on_counterexample:
  "fst (snd (async_turn_on_steam (bench_env ''105XF'' ''0'') 0
               (Steamist_init Steamist ''192.168.1.20'' 10))) = Inr ()
   \<and> fst (snd (async_turn_off_steam (bench_env ''105XF'' ''0'') 0
               (Steamist_init Steamist ''192.168.1.20'' 10))) = Inr ()"
  by code_simp

text \<open>
  Claim C7, amended. On an instance of the base type, \<^verbatim>\<open>get_status()\<close> and
  \<^verbatim>\<open>model()\<close> fail with NotImplementedError (the UnsupportedOperationError of the
  specification); \<^verbatim>\<open>turn_on()\<close> and \<^verbatim>\<open>turn_off()\<close> are no placeholders: they succeed,
  talk to nobody and arm the transition.
\<close>

theorem base_placeholders:
  assumes "klass self = Steamist"
  shows "snd (async_get_status E now self) = Inl (NotImplementedError ''Sub class should implement'')
       \<and> model E Steamist = Inl (NotImplementedError ''Must be overriden by subclass'')
       \<and> async_turn_on_steam E now self = ([], Inr (), async_set_transition now True self)
       \<and> async_turn_off_steam E now self = ([], Inr (), async_set_transition now False self)"
  using assms
  by (simp add: async_get_status_def Steamist_async_get_status_def model_def Steamist_model_def
      async_turn_on_steam_def async_turn_off_steam_def
      Steamist_async_turn_on_steam_def Steamist_async_turn_off_steam_def)

text \<open>
  Claim C7, amended, on a base instance.
\<close>

theorem base_placeholders_witness:
  "klass (Steamist_init Steamist ''192.168.1.20'' 10) = Steamist
   \<and> snd (async_get_status (bench_env ''105XF'' ''0'') 0 (Steamist_init Steamist ''192.168.1.20'' 10))
       = Inl (NotImplementedError ''Sub class should implement'')
   \<and> transiton_state (snd (snd (async_turn_on_steam (bench_env ''105XF'' ''0'') 0
        (Steamist_init Steamist ''192.168.1.20'' 10)))) = True"
proof -
  have k: "klass (Steamist_init Steamist ''192.168.1.20'' 10) = Steamist"
    by (simp add: Steamist_init_def)
  from base_placeholders [OF k, of "bench_env ''105XF'' ''0''" 0] show ?thesis
    using k by (simp add: async_set_transition_def)
qed

text \<open>
  Claim C8 says that after any sequence of commands the pending state and the expiry are
  those that the most recent command sets alone. A command of the HTTP/XML adapter whose
  request fails sets nothing: after \<open>on\<close> at clock 1 and a failed \<open>off\<close> at clock 2 the
  transition is still that of the \<open>on\<close>, while the failed \<open>off\<close> alone leaves the fresh
  instance as it was made.
\<close>

theorem failed_last_command_counterexample:
  "transiton_state (run_commands
      [(bench_env ''105XF'' ''0'', 1, TurnOn), (unplugged_env, 2, TurnOff)] bench_450) = True
   \<and> transition_complete_time (run_commands
      [(bench_env ''105XF'' ''0'', 1, TurnOn), (unplugged_env, 2, TurnOff)] bench_450) = 11
   \<and> transiton_state (run_commands [(unplugged_env, 2, TurnOff)] bench_450) = False
   \<and> transition_complete_time (run_commands [(unplugged_env, 2, TurnOff)] bench_450) = - 1200"
  by code_simp

text \<open>
  Claim C8, amended. After any sequence of commands on one instance whose last command
  completes, the pending state and the expiry are those that this command sets on its
  own, whatever the earlier commands did: the state it asks for and the sum of its clock
  reading and 10. A command of the base type and of the 550 adapter always completes. A
  last command that fails leaves the instance as the earlier commands left it.
\<close>

theorem last_command_decides_transition:
  "(klass self \<noteq> SteamistModel450 \<or> fst (snd (exec_command E now c self)) = Inr () \<longrightarrow>
      transiton_state (run_commands (cs @ [(E, now, c)]) self) = (c = TurnOn)
      \<and> transition_complete_time (run_commands (cs @ [(E, now, c)]) self) = py_float_add now 10
      \<and> transiton_state (run_commands [(E, now, c)] self) = (c = TurnOn)
      \<and> transition_complete_time (run_commands [(E, now, c)] self) = py_float_add now 10)
   \<and> (fst (snd (exec_command E now c self)) \<noteq> Inr () \<longrightarrow>
      run_commands (cs @ [(E, now, c)]) self = run_commands cs self)"
proof (intro conjI impI)
  let ?mid = "run_commands cs self"
  have fr: "klass ?mid = klass self" "host ?mid = host self" "timeout ?mid = timeout self"
    "websession ?mid = websession self"
    using run_commands_frame [of cs self] by simp_all
  have same: "fst (snd (exec_command E now c ?mid)) = fst (snd (exec_command E now c self))"
    using exec_command_result_frame [OF fr, of E now c] by simp
  {
    assume "klass self \<noteq> SteamistModel450 \<or> fst (snd (exec_command E now c self)) = Inr ()"
    then have ok: "fst (snd (exec_command E now c self)) = Inr ()"
      using exec_command_not_450 [of self E now c] by auto
    then have ok': "fst (snd (exec_command E now c ?mid)) = Inr ()"
      using same by simp
    show "transiton_state (run_commands (cs @ [(E, now, c)]) self) = (c = TurnOn)"
      and "transition_complete_time (run_commands (cs @ [(E, now, c)]) self) = py_float_add now 10"
      by (simp_all add: run_commands_append exec_command_success [OF ok'] async_set_transition_def)
    show "transiton_state (run_commands [(E, now, c)] self) = (c = TurnOn)"
      and "transition_complete_time (run_commands [(E, now, c)] self) = py_float_add now 10"
      by (simp_all add: exec_command_success [OF ok] async_set_transition_def)
  }
  {
    assume "fst (snd (exec_command E now c self)) \<noteq> Inr ()"
    then have bad: "fst (snd (exec_command E now c ?mid)) \<noteq> Inr ()"
      using same by simp
    have "snd (snd (exec_command E now c ?mid)) = ?mid"
      using exec_command_cases [of E now c ?mid] bad by (elim disjE exE) simp_all
    then show "run_commands (cs @ [(E, now, c)]) self = run_commands cs self"
      by (simp add: run_commands_append)
  }
qed

text \<open>
  Claim C8, amended, on the bench with the HTTP/XML adapter: after on, a failed off and
  on, an off at clock 4 leaves the transition of that off; after on and off, an on at
  clock 5 leaves the transition of that on; a failed off at the end changes nothing.
\<close>

theorem last_command_decides_transition_witness:
  "fst (snd (exec_command (bench_env ''105XF'' ''0'') 4 TurnOff bench_450)) = Inr ()
   \<and> transiton_state (run_commands
        [(bench_env ''105XF'' ''0'', 1, TurnOn), (unplugged_env, 2, TurnOff),
         (bench_env ''105XF'' ''0'', 3, TurnOn), (bench_env ''105XF'' ''0'', 4, TurnOff)]
        bench_450) = False
   \<and> transition_complete_time (run_commands
        [(bench_env ''105XF'' ''0'', 1, TurnOn), (unplugged_env, 2, TurnOff),
         (bench_env ''105XF'' ''0'', 3, TurnOn), (bench_env ''105XF'' ''0'', 4, TurnOff)]
        bench_450) = 14
   \<and> fst (snd (exec_command (bench_env ''105XF'' ''0'') 5 TurnOn bench_450)) = Inr ()
   \<and> transiton_state (run_commands
        [(bench_env ''105XF'' ''0'', 1, TurnOn), (bench_env ''105XF'' ''0'', 2, TurnOff),
         (bench_env ''105XF'' ''0'', 5, TurnOn)] bench_450) = True
   \<and> transition_complete_time (run_commands
        [(bench_env ''105XF'' ''0'', 1, TurnOn), (bench_env ''105XF'' ''0'', 2, TurnOff),
         (bench_env ''105XF'' ''0'', 5, TurnOn)] bench_450) = 15
   \<and> fst (snd (exec_command unplugged_env 6 TurnOff bench_450)) \<noteq> Inr ()
   \<and> run_commands [(bench_env ''105XF'' ''0'', 1, TurnOn), (unplugged_env, 6, TurnOff)] bench_450
       = run_commands [(bench_env ''105XF'' ''0'', 1, TurnOn)] bench_450"
proof -
  let ?B = "bench_env ''105XF'' ''0''"
  have ok4: "fst (snd (exec_command ?B 4 TurnOff bench_450)) = Inr ()"
    by code_simp
  have ok5: "fst (snd (exec_command ?B 5 TurnOn bench_450)) = Inr ()"
    by code_simp
  have bad: "fst (snd (exec_command unplugged_env 6 TurnOff bench_450)) \<noteq> Inr ()"
    by code_simp
  have e4: "py_float_add 4 10 = 14" and e5: "py_float_add 5 10 = 15"
    by code_simp+
  note a = last_command_decides_transition
    [of bench_450 ?B 4 TurnOff "[(?B, 1, TurnOn), (unplugged_env, 2, TurnOff), (?B, 3, TurnOn)]"]
  note b = last_command_decides_transition
    [of bench_450 ?B 5 TurnOn "[(?B, 1, TurnOn), (?B, 2, TurnOff)]"]
  note c = last_command_decides_transition
    [of bench_450 unplugged_env 6 TurnOff "[(?B, 1, TurnOn)]"]
  from a ok4 have a': "transiton_state (run_commands
        [(?B, 1, TurnOn), (unplugged_env, 2, TurnOff), (?B, 3, TurnOn), (?B, 4, TurnOff)]
        bench_450) = False
      \<and> transition_complete_time (run_commands
        [(?B, 1, TurnOn), (unplugged_env, 2, TurnOff), (?B, 3, TurnOn), (?B, 4, TurnOff)]
        bench_450) = 14"
    by (simp add: e4)
  from b ok5 have b': "transiton_state (run_commands
        [(?B, 1, TurnOn), (?B, 2, TurnOff), (?B, 5, TurnOn)] bench_450) = True
      \<and> transition_complete_time (run_commands
        [(?B, 1, TurnOn), (?B, 2, TurnOff), (?B, 5, TurnOn)] bench_450) = 15"
    by (simp add: e5)
  from c bad have c': "run_commands [(?B, 1, TurnOn), (unplugged_env, 6, TurnOff)] bench_450
       = run_commands [(?B, 1, TurnOn)] bench_450"
    by simp
  show ?thesis
    using ok4 ok5 bad a' b' c' by blast
qed

text \<open>
  Claim C9. On the 550 adapter \<^verbatim>\<open>turn_on()\<close> and \<^verbatim>\<open>turn_off()\<close> send nothing and scan
  nothing (the list of effects is empty), cannot fail, and return the instance with only
  the pending state and the expiry changed; host and timeout are as before.
\<close>

theorem model550_commands_are_local:
  assumes "klass self = SteamistModel550"
  shows "async_turn_on_steam E now self =
           ([], Inr (),
            self\<lparr>transiton_state := True, transition_complete_time := py_float_add now 10\<rparr>)
       \<and> async_turn_off_steam E now self =
           ([], Inr (),
            self\<lparr>transiton_state := False, transition_complete_time := py_float_add now 10\<rparr>)
       \<and> host (snd (snd (async_turn_on_steam E now self))) = host self
       \<and> timeout (snd (snd (async_turn_on_steam E now self))) = timeout self
       \<and> host (snd (snd (async_turn_off_steam E now self))) = host self
       \<and> timeout (snd (snd (async_turn_off_steam E now self))) = timeout self"
  using assms
  by (simp add: async_turn_on_steam_def async_turn_off_steam_def
      Steamist_async_turn_on_steam_def Steamist_async_turn_off_steam_def async_set_transition_def)

text \<open>
  Claim C9 on a 550 instance while the controller is unplugged.
\<close>

theorem model550_commands_are_local_witness:
  "klass (Steamist_init SteamistModel550 ''192.168.1.20'' 10) = SteamistModel550
   \<and> fst (async_turn_on_steam unplugged_env 7 (Steamist_init SteamistModel550 ''192.168.1.20'' 10)) = []
   \<and> transition_complete_time (snd (snd (async_turn_on_steam unplugged_env 7
        (Steamist_init SteamistModel550 ''192.168.1.20'' 10)))) = 17
   \<and> host (snd (snd (async_turn_off_steam unplugged_env 7
        (Steamist_init SteamistModel550 ''192.168.1.20'' 10)))) = ''192.168.1.20''"
proof -
  have k: "klass (Steamist_init SteamistModel550 ''192.168.1.20'' 10) = SteamistModel550"
    by (simp add: Steamist_init_def)
  have e: "py_float_add 7 10 = 17"
    by code_simp
  from model550_commands_are_local [OF k, of unplugged_env 7] show ?thesis
    using k by (simp add: Steamist_init_def e)
qed

text \<open>
  Claim C10. On the HTTP/XML adapter \<^verbatim>\<open>turn_on()\<close> and \<^verbatim>\<open>turn_off()\<close> first send the
  GET for LED 6 (resp. 7). When the request raises, the call raises the same exception
  and the instance, its pending state and expiry included, is as before; when it
  completes, the transition is armed with the clock read afterwards.
\<close>

theorem model450_arms_after_request:
  assumes "klass self = SteamistModel450" and "websession self = Some ws"
  shows "(session_request E ws (led_request self STEAM_ON_LED) = Inl e \<longrightarrow>
            async_turn_on_steam E now self =
              ([HttpGet ws (led_request self STEAM_ON_LED)], Inl e, self))
       \<and> (session_request E ws (led_request self STEAM_ON_LED) = Inr body \<longrightarrow>
            async_turn_on_steam E now self =
              ([HttpGet ws (led_request self STEAM_ON_LED)], Inr (),
               async_set_transition now True self))
       \<and> (session_request E ws (led_request self STEAM_OFF_LED) = Inl e \<longrightarrow>
            async_turn_off_steam E now self =
              ([HttpGet ws (led_request self STEAM_OFF_LED)], Inl e, self))
       \<and> (session_request E ws (led_request self STEAM_OFF_LED) = Inr body \<longrightarrow>
            async_turn_off_steam E now self =
              ([HttpGet ws (led_request self STEAM_OFF_LED)], Inr (),
               async_set_transition now False self))"
  using assms
  by (simp add: async_turn_on_steam_def async_turn_off_steam_def
      SteamistModel450_async_turn_on_steam_def SteamistModel450_async_turn_off_steam_def
      set_led_450 [OF assms(2)])

text \<open>
  Claim C10 on the bench: a \<^verbatim>\<open>turn_on()\<close> with the controller unplugged and a
  \<^verbatim>\<open>turn_off()\<close> that goes through.
\<close>

theorem model450_arms_after_request_witness:
  "klass bench_450 = SteamistModel450 \<and> websession bench_450 = Some (ClientSession 0)
   \<and> session_request unplugged_env (ClientSession 0) (led_request bench_450 STEAM_ON_LED)
       = Inl ClientError
   \<and> async_turn_on_steam unplugged_env 7 bench_450 =
       ([HttpGet (ClientSession 0) (led_request bench_450 STEAM_ON_LED)], Inl ClientError, bench_450)
   \<and> session_request (bench_env ''105XF'' ''0'') (ClientSession 0)
        (led_request bench_450 STEAM_OFF_LED) = Inr ''ok''
   \<and> async_turn_off_steam (bench_env ''105XF'' ''0'') 7 bench_450 =
       ([HttpGet (ClientSession 0) (led_request bench_450 STEAM_OFF_LED)], Inr (),
        async_set_transition 7 False bench_450)"
proof -
  have k: "klass bench_450 = SteamistModel450"
    and w: "websession bench_450 = Some (ClientSession 0)"
    by code_simp+
  have f: "session_request unplugged_env (ClientSession 0) (led_request bench_450 STEAM_ON_LED)
             = Inl ClientError"
    by code_simp
  have s: "session_request (bench_env ''105XF'' ''0'') (ClientSession 0)
             (led_request bench_450 STEAM_OFF_LED) = Inr ''ok''"
    by code_simp
  from model450_arms_after_request [OF k w, where E = unplugged_env and e = ClientError and now = 7] f
  have a: "async_turn_on_steam unplugged_env 7 bench_450 =
       ([HttpGet (ClientSession 0) (led_request bench_450 STEAM_ON_LED)], Inl ClientError, bench_450)"
    by blast
  from model450_arms_after_request
         [OF k w, where E = "bench_env ''105XF'' ''0''" and body = "''ok''" and now = 7] s
  have b: "async_turn_off_steam (bench_env ''105XF'' ''0'') 7 bench_450 =
       ([HttpGet (ClientSession 0) (led_request bench_450 STEAM_OFF_LED)], Inr (),
        async_set_transition 7 False bench_450)"
    by blast
  show ?thesis
    using k w f s a b by blast
qed

end
